theory Spec2Isabelle
  imports Main
begin

section \<open>JavaScript values\<close>

text \<open>
  The values that flow through \<^verbatim>\<open>MethodChain.js\<close> and \<^verbatim>\<open>ChainedMap.js\<close>.
  Numbers are integers (exact below \<open>2^53\<close>) plus \<open>NaN\<close>.  A plain object that is only
  read is a list of its own enumerable entries in key order (\<open>VObj\<close>); an object that is
  mutated through a reference (the owning parent, a decoration target) lives in the heap
  and is named by \<open>VRef\<close>; a \<^verbatim>\<open>MethodChain\<close> instance is named by \<open>VChain\<close>.  A function object is its closure together with the properties
  set on it (\<^verbatim>\<open>defaulted\<close>, \<^verbatim>\<open>decorated\<close>, \<^verbatim>\<open>encased\<close>); function objects are compared and
  copied by value, so two closures over the same variables are the same value.

  Every closure the source creates is one constructor of \<open>fn\<close>, holding the variables it
  closes over.  \<open>Prim k\<close> is a function supplied from outside (a handler, a factory, a
  validator); its behaviour is the parameter \<open>prim\<close> of the model.
\<close>

datatype jsval =
    VUndefined
  | VNull
  | VBool bool
  | VNum int
  | VNaN
  | VStr string
  | VArr "jsval list"
  | VObj "(string \<times> jsval) list"
  | VRef nat
  | VChain nat
  | VFun fn "(string \<times> jsval) list"
and fn =
    Prim nat
  | DefaultOnSet string jsval
  | DefaultOnGet string jsval
  | DefaultMethod jsval jsval jsval
  | BoundFn jsval jsval
  | ReturnsWrapper jsval jsval jsval jsval
  | ReturnsFunction jsval
  | AutoIncrementCall jsval jsval
  | AutoIncrementFactory nat
  | DecorateFactory nat jsval
  | MetaFn nat

datatype error = TypeError | Thrown jsval | Unmodelled

type_synonym jsmap = "(string \<times> jsval) list"

text \<open>Entries of a \<^verbatim>\<open>Map\<close> or of an object: a key is written in place when it is there and
  appended when it is new.\<close>

fun put :: "string \<Rightarrow> 'a \<Rightarrow> (string \<times> 'a) list \<Rightarrow> (string \<times> 'a) list" where
  "put k v [] = [(k, v)]"
| "put k v ((k', v') # m) = (if k = k' then (k, v) # m else (k', v') # put k v m)"

definition del :: "string \<Rightarrow> (string \<times> 'a) list \<Rightarrow> (string \<times> 'a) list" where
  "del k m = filter (\<lambda>e. fst e \<noteq> k) m"

definition getv :: "jsmap \<Rightarrow> string \<Rightarrow> jsval" where
  "getv m k = (case map_of m k of None \<Rightarrow> VUndefined | Some v \<Rightarrow> v)"

fun truthy :: "jsval \<Rightarrow> bool" where
  "truthy VUndefined = False"
| "truthy VNull = False"
| "truthy (VBool b) = b"
| "truthy (VNum n) = (n \<noteq> 0)"
| "truthy VNaN = False"
| "truthy (VStr s) = (s \<noteq> [])"
| "truthy _ = True"

definition isUndefined :: "jsval \<Rightarrow> bool" where
  "isUndefined x = (x = VUndefined)"

text \<open>\<^verbatim>\<open>isTrue\<close> is declared in \<^verbatim>\<open>typings/is.d.ts\<close> as the type guard \<^verbatim>\<open>o is true\<close>.\<close>

definition isTrue :: "jsval \<Rightarrow> bool" where
  "isTrue x = (x = VBool True)"

fun isArray :: "jsval \<Rightarrow> bool" where
  "isArray (VArr xs) = True"
| "isArray _ = False"

fun isFunction :: "jsval \<Rightarrow> bool" where
  "isFunction (VFun f ps) = True"
| "isFunction _ = False"

text \<open>\<^verbatim>\<open>isObj\<close>: \<^verbatim>\<open>typeof\<close> is \<^verbatim>\<open>object\<close> or \<^verbatim>\<open>function\<close>, and not \<^verbatim>\<open>null\<close>.\<close>

fun isObj :: "jsval \<Rightarrow> bool" where
  "isObj (VArr xs) = True"
| "isObj (VObj kvs) = True"
| "isObj (VRef r) = True"
| "isObj (VChain c) = True"
| "isObj (VFun f ps) = True"
| "isObj _ = False"


section \<open>Objects, chains and the heap\<close>

text \<open>
  An own property of a heap object, as \<^verbatim>\<open>Object.getOwnPropertyDescriptor\<close> reports it:
  a data property (value, writable, enumerable, configurable) or an accessor property
  (get, set, enumerable, configurable).
\<close>

datatype own_prop =
    DataProp jsval bool bool bool
  | AccessorProp jsval jsval bool bool



text \<open>
  A heap object: its own properties, the values it reaches through its prototype chain
  (\<open>inherited\<close>, data only), the \<^verbatim>\<open>Map\<close> behind \<^verbatim>\<open>this.store\<close> when the object is a
  \<^verbatim>\<open>ChainedMap\<close> (\<open>ostore\<close>, absent otherwise), and what its \<^verbatim>\<open>meta\<close> function has recorded.
  The members \<^verbatim>\<open>store\<close> and \<^verbatim>\<open>shorthands\<close> that the \<^verbatim>\<open>ChainedMap\<close> constructor creates are
  not repeated in \<open>props\<close>.

  A \<^verbatim>\<open>MethodChain\<close> instance is a \<open>chain\<close>: its store (\<open>cstore\<close>), its own property
  \<^verbatim>\<open>parent\<close> (\<open>own_parent\<close>, absent after \<^verbatim>\<open>delete this.parent\<close>) and the constructor
  argument \<^verbatim>\<open>parent\<close> that the instance's arrow functions close over (\<open>ctor_parent\<close>).  Its other own keys are \<^verbatim>\<open>shorthands\<close> and the
  closures the constructor assigns.
\<close>

record obj =
  props :: "(string \<times> own_prop) list"
  inherited :: jsmap
  ostore :: "jsmap option"
  registry :: "(jsval \<times> jsval \<times> jsval) list"

record chain =
  cstore :: jsmap
  own_parent :: "jsval option"
  ctor_parent :: jsval

record state =
  objs :: "nat \<Rightarrow> obj"
  chains :: "nat \<Rightarrow> chain"

type_synonym 'a res = "error + 'a"

definition bindE :: "'a res \<Rightarrow> ('a \<Rightarrow> 'b res) \<Rightarrow> 'b res" where
  "bindE m f = (case m of Inl e \<Rightarrow> Inl e | Inr x \<Rightarrow> f x)"

section \<open>ChainedMap\<close>

text \<open>\<^verbatim>\<open>get(key) { return this.store.get(key) }\<close>\<close>

definition get :: "nat \<Rightarrow> string \<Rightarrow> state \<Rightarrow> jsval" where
  "get c key st = getv (cstore (chains st c)) key"

text \<open>\<^verbatim>\<open>set(key, value) { this.store.set(key, value); return this }\<close>\<close>

definition set_key :: "nat \<Rightarrow> string \<Rightarrow> jsval \<Rightarrow> state \<Rightarrow> state" where
  "set_key c key v st =
     st\<lparr>chains := (chains st)(c := (chains st c)\<lparr>cstore := put key v (cstore (chains st c))\<rparr>)\<rparr>"

text \<open>\<^verbatim>\<open>entries()\<close> with \<^verbatim>\<open>chains = false\<close>: the store spread into an object.\<close>

definition entries :: "nat \<Rightarrow> state \<Rightarrow> jsmap" where
  "entries c st = cstore (chains st c)"

text \<open>
  \<^verbatim>\<open>clear()\<close> on a \<^verbatim>\<open>MethodChain\<close> instance: \<^verbatim>\<open>this.store.clear()\<close>; the loop over
  \<^verbatim>\<open>Object.keys(this)\<close> skips \<^verbatim>\<open>parent\<close>, \<^verbatim>\<open>store\<close> and \<^verbatim>\<open>shorthands\<close> and meets only
  closures, which are neither \<^verbatim>\<open>Chainable\<close> nor \<^verbatim>\<open>Map\<close>.
\<close>

definition clear :: "nat \<Rightarrow> state \<Rightarrow> state" where
  "clear c st = st\<lparr>chains := (chains st)(c := (chains st c)\<lparr>cstore := []\<rparr>)\<rparr>"







section \<open>Collaborators that are not part of the sources\<close>

text \<open>
  Modelled from the spec: \<^verbatim>\<open>toarr\<close> (\<^verbatim>\<open>deps/to-arr\<close>) is missing.  \<^verbatim>\<open>name\<close> accepts a single
  identifier or a sequence of identifiers and synthesis runs once for each resolved
  name; a spec that holds no names resolves to none.
\<close>

fun toarr :: "jsval \<Rightarrow> jsval list" where
  "toarr (VArr xs) = xs"
| "toarr VUndefined = []"
| "toarr VNull = []"
| "toarr v = [v]"

text \<open>
  Modelled from the spec: the deep-merge utility (\<^verbatim>\<open>deps/dopemerge\<close>) is missing.  It
  merges with sequence concatenation and mapping recursion; merging into nothing gives
  the other operand, and any other pair gives the second operand.
\<close>

fun merge_entries :: "(jsval \<Rightarrow> jsval \<Rightarrow> jsval) \<Rightarrow> jsmap \<Rightarrow> jsmap \<Rightarrow> jsmap" where
  "merge_entries f a [] = a"
| "merge_entries f a ((k, v) # b) =
     merge_entries f (case map_of a k of None \<Rightarrow> put k v a | Some u \<Rightarrow> put k (f u v) a) b"

fun dopemerge_n :: "nat \<Rightarrow> jsval \<Rightarrow> jsval \<Rightarrow> jsval" where
  "dopemerge_n n VUndefined y = y"
| "dopemerge_n n VNull y = y"
| "dopemerge_n n (VArr a) (VArr b) = VArr (a @ b)"
| "dopemerge_n (Suc n) (VObj a) (VObj b) = VObj (merge_entries (dopemerge_n n) a b)"
| "dopemerge_n n x VUndefined = x"
| "dopemerge_n n x VNull = x"
| "dopemerge_n n x y = y"

definition dopemerge :: "jsval \<Rightarrow> jsval \<Rightarrow> jsval" where
  "dopemerge x y = dopemerge_n (size x) x y"

text \<open>
  Modelled from the spec: \<^verbatim>\<open>markForGarbageCollection\<close> (\<^verbatim>\<open>deps/gc\<close>) is missing.  It marks the
  instance for reclamation, after the store has been cleared and the parent link
  released; nothing of the instance or of any target changes.
\<close>

definition markForGarbageCollection :: "nat \<Rightarrow> state \<Rightarrow> state" where
  "markForGarbageCollection c st = st"

text \<open>
  Modelled from the spec: \<^verbatim>\<open>deps/meta\<close> and its keys \<^verbatim>\<open>DECORATED_KEY\<close>, \<^verbatim>\<open>SHORTHANDS_KEY\<close>
  are missing.  \<^verbatim>\<open>meta(target)\<close> is the metadata function of \<open>target\<close>; calling it records
  the key, the name and the value it is given in the registry of \<open>target\<close>.
\<close>

definition DECORATED_KEY :: jsval where
  "DECORATED_KEY = VStr ''decorated''"

definition SHORTHANDS_KEY :: jsval where
  "SHORTHANDS_KEY = VStr ''shorthands''"

definition arg :: "jsval list \<Rightarrow> nat \<Rightarrow> jsval" where
  "arg args i = (if i < length args then args ! i else VUndefined)"

definition meta_record :: "nat \<Rightarrow> jsval list \<Rightarrow> state \<Rightarrow> state" where
  "meta_record r args st =
     st\<lparr>objs := (objs st)(r := (objs st r)
        \<lparr>registry := registry (objs st r) @ [(arg args 0, arg args 1, arg args 2)]\<rparr>)\<rparr>"

text \<open>
  The remaining collaborators are parameters of the model: the functions supplied from
  outside (\<open>prim\<close>: closure number, \<^verbatim>\<open>this\<close>, arguments, state), the case normalisation,
  the validator and encasing constructions, and the constant \<^verbatim>\<open>ENV_DEVELOPMENT\<close>.
\<close>

type_synonym prims = "nat \<Rightarrow> jsval \<Rightarrow> jsval list \<Rightarrow> state \<Rightarrow> (jsval \<times> state) res"

record ext =
  prim :: prims
  camelCase :: "string \<Rightarrow> string"
  validatorMethodFactory :: "string \<Rightarrow> jsval \<Rightarrow> jsmap \<Rightarrow> jsval"
  methodEncasingFactory :: "string \<Rightarrow> jsval \<Rightarrow> jsmap \<Rightarrow> jsval \<Rightarrow> jsval"
  ENV_DEVELOPMENT :: bool

section \<open>The store of the owning parent\<close>

text \<open>
  \<^verbatim>\<open>parent.get\<close>, \<^verbatim>\<open>parent.set\<close> and \<^verbatim>\<open>parent.tap\<close> as the closures of \<^verbatim>\<open>MethodChain\<close> call
  them.  The receiver has to be a \<^verbatim>\<open>ChainedMap\<close> in the heap whose method is the one of
  \<^verbatim>\<open>ChainedMap.prototype\<close>: a receiver without a store has no such method
  (\<^verbatim>\<open>TypeError\<close>), and a receiver that carries a member of that name of its own is
  outside the model.
\<close>

fun parent_store :: "string \<Rightarrow> jsval \<Rightarrow> state \<Rightarrow> (nat \<times> jsmap) res" where
  "parent_store m (VRef r) st =
     (if map_of (props (objs st r)) m \<noteq> None then Inl Unmodelled
      else case ostore (objs st r) of
             Some s \<Rightarrow> Inr (r, s)
           | None \<Rightarrow> if map_of (inherited (objs st r)) m \<noteq> None then Inl Unmodelled
                     else Inl TypeError)"
| "parent_store m (VObj kvs) st = Inl Unmodelled"
| "parent_store m (VFun f ps) st = Inl Unmodelled"
| "parent_store m (VChain c) st = Inl Unmodelled"
| "parent_store m v st = Inl TypeError"

definition put_store :: "nat \<Rightarrow> jsmap \<Rightarrow> state \<Rightarrow> state" where
  "put_store r s st = st\<lparr>objs := (objs st)(r := (objs st r)\<lparr>ostore := Some s\<rparr>)\<rparr>"

definition parent_get :: "jsval \<Rightarrow> string \<Rightarrow> state \<Rightarrow> (jsval \<times> state) res" where
  "parent_get p key st = bindE (parent_store ''get'' p st) (\<lambda>(r, s). Inr (getv s key, st))"

definition parent_set :: "jsval \<Rightarrow> string \<Rightarrow> jsval \<Rightarrow> state \<Rightarrow> (jsval \<times> state) res" where
  "parent_set p key v st =
     bindE (parent_store ''set'' p st) (\<lambda>(r, s). Inr (VRef r, put_store r (put key v s) st))"

text \<open>\<^verbatim>\<open>tap(name, fn)\<close>: \<^verbatim>\<open>old = this.get(name); updated = fn(old, dopemerge);
  return this.set(name, updated)\<close>.\<close>

definition parent_tap ::
  "jsval \<Rightarrow> string \<Rightarrow> (jsval \<Rightarrow> (jsval \<Rightarrow> jsval \<Rightarrow> jsval) \<Rightarrow> jsval res) \<Rightarrow> state
     \<Rightarrow> (jsval \<times> state) res" where
  "parent_tap p key f st =
     bindE (parent_store ''tap'' p st) (\<lambda>_.
     bindE (parent_get p key st) (\<lambda>(old, st1).
     bindE (f old dopemerge) (\<lambda>updated. parent_set p key updated st1)))"

definition tap ::
  "nat \<Rightarrow> string \<Rightarrow> (jsval \<Rightarrow> (jsval \<Rightarrow> jsval \<Rightarrow> jsval) \<Rightarrow> jsval) \<Rightarrow> state \<Rightarrow> state" where
  "tap c key f st = set_key c key (f (get c key st) dopemerge) st"

text \<open>\<^verbatim>\<open>num + 1\<close>.  An object operand is converted through its \<^verbatim>\<open>toString\<close>, which is
  outside the model.\<close>

fun plus_one :: "jsval \<Rightarrow> jsval res" where
  "plus_one (VNum n) = Inr (VNum (n + 1))"
| "plus_one VUndefined = Inr VNaN"
| "plus_one VNaN = Inr VNaN"
| "plus_one VNull = Inr (VNum 1)"
| "plus_one (VBool b) = Inr (VNum (if b then 2 else 1))"
| "plus_one (VStr s) = Inr (VStr (s @ ''1''))"
| "plus_one v = Inl Unmodelled"

text \<open>
  \<^verbatim>\<open>target.meta(key, name, value)\<close>: the member \<^verbatim>\<open>meta\<close> of a heap object, own or
  inherited, called on that object.  Only a metadata function and a function supplied
  from outside are followed.
\<close>

fun call_meta_fn :: "prims \<Rightarrow> jsval \<Rightarrow> jsval \<Rightarrow> jsval list \<Rightarrow> state \<Rightarrow> (jsval \<times> state) res" where
  "call_meta_fn pr (VFun (MetaFn r) qs) this args st = Inr (VUndefined, meta_record r args st)"
| "call_meta_fn pr (VFun (Prim k) qs) this args st = pr k this args st"
| "call_meta_fn pr (VFun f qs) this args st = Inl Unmodelled"
| "call_meta_fn pr (VObj kvs) this args st = Inl TypeError"
| "call_meta_fn pr (VArr xs) this args st = Inl TypeError"
| "call_meta_fn pr (VRef r) this args st = Inl TypeError"
| "call_meta_fn pr (VChain c) this args st = Inl TypeError"
| "call_meta_fn pr v this args st = Inl TypeError"

fun call_meta :: "prims \<Rightarrow> jsval \<Rightarrow> jsval list \<Rightarrow> state \<Rightarrow> (jsval \<times> state) res" where
  "call_meta pr (VRef t) args st =
     (case map_of (props (objs st t)) ''meta'' of
        None \<Rightarrow> call_meta_fn pr (getv (inherited (objs st t)) ''meta'') (VRef t) args st
      | Some (DataProp v w e cf) \<Rightarrow> call_meta_fn pr v (VRef t) args st
      | Some (AccessorProp g s e cf) \<Rightarrow> Inl Unmodelled)"
| "call_meta pr VUndefined args st = Inl TypeError"
| "call_meta pr VNull args st = Inl TypeError"
| "call_meta pr v args st = Inl Unmodelled"

section \<open>Calling a function value\<close>

text \<open>
  One equation for each closure of the source:
  \<^item> \<open>DefaultOnSet name parent\<close> is \<^verbatim>\<open>arg => parent.set(name, arg)\<close>,
    \<open>DefaultOnGet name parent\<close> is \<^verbatim>\<open>() => parent.get(name)\<close> (\<^verbatim>\<open>_defaults\<close>);
  \<^item> \<open>DefaultMethod defaultValue call parent\<close> is
    \<^verbatim>\<open>(arg = defaultValue) => call.call(parent, arg)\<close>;
  \<^item> \<open>BoundFn method bind\<close> is \<^verbatim>\<open>method.bind(bind)\<close>;
  \<^item> \<open>ReturnsWrapper ref parent returns callReturns\<close> is the function that \<^verbatim>\<open>_build\<close>
    installs when \<^verbatim>\<open>returns\<close> is set;
  \<^item> \<open>ReturnsFunction parentToDecorate\<close> is \<^verbatim>\<open>returnsFunction\<close> of \<^verbatim>\<open>decorate\<close>, and
    \<open>DecorateFactory this parentToDecorate\<close> the factory that \<^verbatim>\<open>decorate\<close> queues;
  \<^item> \<open>AutoIncrementFactory this\<close> is the factory of \<^verbatim>\<open>autoIncrement\<close> and
    \<open>AutoIncrementCall parent name\<close> the \<^verbatim>\<open>call\<close> handler it sets;
  \<^item> \<open>MetaFn r\<close> is \<^verbatim>\<open>meta(target)\<close>.
  \<^verbatim>\<open>argumentor\<close> (\<^verbatim>\<open>deps/argumentor\<close>, missing) is taken to return the arguments it is
  applied to as an array.  Calling anything that is not a function is a \<^verbatim>\<open>TypeError\<close>.
\<close>

fun call_fn :: "prims \<Rightarrow> jsval \<Rightarrow> jsval \<Rightarrow> jsval list \<Rightarrow> state \<Rightarrow> (jsval \<times> state) res" where
  "call_fn pr (VFun (Prim k) ps) this args st = pr k this args st"
| "call_fn pr (VFun (DefaultOnSet name parent) ps) this args st =
     parent_set parent name (arg args 0) st"
| "call_fn pr (VFun (DefaultOnGet name parent) ps) this args st =
     parent_get parent name st"
| "call_fn pr (VFun (DefaultMethod defaultValue call parent) ps) this args st =
     call_fn pr call parent [if arg args 0 = VUndefined then defaultValue else arg args 0] st"
| "call_fn pr (VFun (BoundFn method bind) ps) this args st =
     call_fn pr method bind args st"
| "call_fn pr (VFun (ReturnsWrapper ref parent returns callReturns) ps) this args st =
     (case call_fn pr ref parent args st of
        Inl e \<Rightarrow> Inl e
      | Inr (result, st1) \<Rightarrow>
          if isTrue callReturns then call_fn pr returns parent (result # args) st1
          else Inr (returns, st1))"
| "call_fn pr (VFun (ReturnsFunction parentToDecorate) ps) this args st =
     Inr (if truthy (arg args 0) then arg args 0 else parentToDecorate, st)"
| "call_fn pr (VFun (AutoIncrementCall parent name) ps) this args st =
     (case name of
        VStr key \<Rightarrow> parent_tap parent key (\<lambda>num merge. plus_one num) st
      | _ \<Rightarrow> Inl Unmodelled)"
| "call_fn pr (VFun (AutoIncrementFactory c) ps) this args st =
     Inr (VChain c,
          set_key c ''call'' (VFun (AutoIncrementCall (arg args 1) (arg args 0)) [])
            (set_key c ''initial'' (VNum 0) st))"
| "call_fn pr (VFun (DecorateFactory c parentToDecorate) ps) this args st =
     (case call_meta pr parentToDecorate [DECORATED_KEY, arg args 0] st of
        Inl e \<Rightarrow> Inl e
      | Inr (u, st1) \<Rightarrow>
          Inr (VChain c,
               set_key c ''callReturns'' (VFun (ReturnsFunction parentToDecorate) [])
                 (set_key c ''callReturns'' VUndefined
                   (set_key c ''returns''
                      (if truthy parentToDecorate then parentToDecorate
                       else ctor_parent (chains st1 c)) st1))))"
| "call_fn pr (VFun (MetaFn r) ps) this args st = Inr (VUndefined, meta_record r args st)"
| "call_fn pr v this args st = Inl TypeError"

section \<open>Properties of heap objects\<close>

text \<open>\<^verbatim>\<open>ToPropertyKey\<close> for the values that are used as names: strings, numbers and the
  other primitives.  An object key is converted through its \<^verbatim>\<open>toString\<close>, which is
  outside the model.\<close>

fun show_nat :: "nat \<Rightarrow> string" where
  "show_nat n =
     (if n < 10 then [char_of (48 + n)]
      else show_nat (n div 10) @ [char_of (48 + n mod 10)])"

fun to_key :: "jsval \<Rightarrow> string option" where
  "to_key (VStr s) = Some s"
| "to_key (VNum n) = Some (if n < 0 then CHR ''-'' # show_nat (nat (- n)) else show_nat (nat n))"
| "to_key VNaN = Some ''NaN''"
| "to_key VUndefined = Some ''undefined''"
| "to_key VNull = Some ''null''"
| "to_key (VBool b) = Some (if b then ''true'' else ''false'')"
| "to_key v = None"

text \<open>The members \<^verbatim>\<open>store\<close> and \<^verbatim>\<open>shorthands\<close> of a \<^verbatim>\<open>ChainedMap\<close> are not kept in
  \<open>props\<close>; a property operation on one of them is outside the model.\<close>

definition reserved :: "obj \<Rightarrow> string \<Rightarrow> bool" where
  "reserved ob name = (ostore ob \<noteq> None \<and> (name = ''store'' \<or> name = ''shorthands''))"

text \<open>\<^verbatim>\<open>hasOwnProperty(haystack, needle)\<close>, that is
  \<^verbatim>\<open>Object.prototype.hasOwnProperty.call(haystack, needle)\<close>.\<close>

fun hasOwnProperty :: "state \<Rightarrow> jsval \<Rightarrow> string \<Rightarrow> bool res" where
  "hasOwnProperty st (VRef r) name =
     (if reserved (objs st r) name then Inl Unmodelled
      else Inr (map_of (props (objs st r)) name \<noteq> None))"
| "hasOwnProperty st VUndefined name = Inl TypeError"
| "hasOwnProperty st VNull name = Inl TypeError"
| "hasOwnProperty st v name = Inl Unmodelled"

text \<open>The descriptor object that \<^verbatim>\<open>Object.getOwnPropertyDescriptor\<close> builds.\<close>

fun descriptor_of :: "own_prop \<Rightarrow> jsmap" where
  "descriptor_of (DataProp v w e c) =
     [(''value'', v), (''writable'', VBool w), (''enumerable'', VBool e),
      (''configurable'', VBool c)]"
| "descriptor_of (AccessorProp g s e c) =
     [(''get'', g), (''set'', s), (''enumerable'', VBool e), (''configurable'', VBool c)]"

fun getDescriptor :: "state \<Rightarrow> jsval \<Rightarrow> string \<Rightarrow> jsmap option res" where
  "getDescriptor st (VRef r) name =
     (if reserved (objs st r) name then Inl Unmodelled
      else Inr (map_option descriptor_of (map_of (props (objs st r)) name)))"
| "getDescriptor st VUndefined name = Inl TypeError"
| "getDescriptor st VNull name = Inl TypeError"
| "getDescriptor st v name = Inl Unmodelled"

text \<open>\<^verbatim>\<open>Object.assign(target, source)\<close> on two objects given by their entries.\<close>

definition ObjectAssign :: "jsmap \<Rightarrow> jsmap \<Rightarrow> jsmap" where
  "ObjectAssign target source = foldl (\<lambda>t e. put (fst e) (snd e) t) target source"

text \<open>
  \<^verbatim>\<open>ToPropertyDescriptor\<close>: the fields that are present, the flags converted with
  \<^verbatim>\<open>ToBoolean\<close>.  A getter or setter that is neither callable nor \<^verbatim>\<open>undefined\<close>, and a
  descriptor that has \<^verbatim>\<open>get\<close> or \<^verbatim>\<open>set\<close> together with \<^verbatim>\<open>value\<close> or \<^verbatim>\<open>writable\<close>, is a
  \<^verbatim>\<open>TypeError\<close>.
\<close>

record pdesc =
  pd_value :: "jsval option"
  pd_writable :: "bool option"
  pd_get :: "jsval option"
  pd_set :: "jsval option"
  pd_enumerable :: "bool option"
  pd_configurable :: "bool option"

definition callable_or_undefined :: "jsval option \<Rightarrow> bool" where
  "callable_or_undefined x =
     (case x of None \<Rightarrow> True | Some v \<Rightarrow> isFunction v \<or> v = VUndefined)"

definition ToPropertyDescriptor :: "jsmap \<Rightarrow> pdesc res" where
  "ToPropertyDescriptor d =
     (if \<not> callable_or_undefined (map_of d ''get'') \<or> \<not> callable_or_undefined (map_of d ''set'')
      then Inl TypeError
      else if (map_of d ''get'' \<noteq> None \<or> map_of d ''set'' \<noteq> None)
            \<and> (map_of d ''value'' \<noteq> None \<or> map_of d ''writable'' \<noteq> None)
      then Inl TypeError
      else Inr \<lparr>pd_value = map_of d ''value'',
                pd_writable = map_option truthy (map_of d ''writable''),
                pd_get = map_of d ''get'',
                pd_set = map_of d ''set'',
                pd_enumerable = map_option truthy (map_of d ''enumerable''),
                pd_configurable = map_option truthy (map_of d ''configurable'')\<rparr>)"

definition is_accessor_pd :: "pdesc \<Rightarrow> bool" where
  "is_accessor_pd d = (pd_get d \<noteq> None \<or> pd_set d \<noteq> None)"

definition is_data_pd :: "pdesc \<Rightarrow> bool" where
  "is_data_pd d = (pd_value d \<noteq> None \<or> pd_writable d \<noteq> None)"

definition orElse :: "'a option \<Rightarrow> 'a \<Rightarrow> 'a" where
  "orElse x d = (case x of None \<Rightarrow> d | Some v \<Rightarrow> v)"

text \<open>\<^verbatim>\<open>SameValue\<close>.  Functions, arrays and plain objects are values in this model, so
  whether two of them are one object is not known (\<open>None\<close>).\<close>

fun by_value_object :: "jsval \<Rightarrow> bool" where
  "by_value_object (VFun f ps) = True"
| "by_value_object (VObj kvs) = True"
| "by_value_object (VArr xs) = True"
| "by_value_object v = False"

definition same_value :: "jsval \<Rightarrow> jsval \<Rightarrow> bool option" where
  "same_value x y =
     (if by_value_object x \<and> by_value_object y then None else Some (x = y))"

text \<open>What \<^verbatim>\<open>ValidateAndApplyPropertyDescriptor\<close> writes: a new property takes
  \<^verbatim>\<open>undefined\<close> and \<^verbatim>\<open>false\<close> for the fields the descriptor leaves out; an existing one
  keeps its own, and keeps only its flags when it changes between data and accessor.\<close>

fun apply_pd :: "own_prop option \<Rightarrow> pdesc \<Rightarrow> own_prop" where
  "apply_pd None d =
     (if is_accessor_pd d
      then AccessorProp (orElse (pd_get d) VUndefined) (orElse (pd_set d) VUndefined)
             (orElse (pd_enumerable d) False) (orElse (pd_configurable d) False)
      else DataProp (orElse (pd_value d) VUndefined) (orElse (pd_writable d) False)
             (orElse (pd_enumerable d) False) (orElse (pd_configurable d) False))"
| "apply_pd (Some (DataProp v w e c)) d =
     (if is_accessor_pd d
      then AccessorProp (orElse (pd_get d) VUndefined) (orElse (pd_set d) VUndefined)
             (orElse (pd_enumerable d) e) (orElse (pd_configurable d) c)
      else DataProp (orElse (pd_value d) v) (orElse (pd_writable d) w)
             (orElse (pd_enumerable d) e) (orElse (pd_configurable d) c))"
| "apply_pd (Some (AccessorProp g s e c)) d =
     (if is_data_pd d
      then DataProp (orElse (pd_value d) VUndefined) (orElse (pd_writable d) False)
             (orElse (pd_enumerable d) e) (orElse (pd_configurable d) c)
      else AccessorProp (orElse (pd_get d) g) (orElse (pd_set d) s)
             (orElse (pd_enumerable d) e) (orElse (pd_configurable d) c))"

text \<open>The checks of \<^verbatim>\<open>ValidateAndApplyPropertyDescriptor\<close> against a property that is
  not configurable.\<close>

definition changes :: "jsval option \<Rightarrow> jsval \<Rightarrow> bool option" where
  "changes x cur = (case x of None \<Rightarrow> Some False | Some v \<Rightarrow> map_option Not (same_value v cur))"

fun validate_pd :: "own_prop option \<Rightarrow> pdesc \<Rightarrow> unit res" where
  "validate_pd None d = Inr ()"
| "validate_pd (Some (DataProp v w e c)) d =
     (if c then Inr ()
      else if pd_configurable d = Some True then Inl TypeError
      else if pd_enumerable d \<noteq> None \<and> pd_enumerable d \<noteq> Some e then Inl TypeError
      else if is_accessor_pd d then Inl TypeError
      else if w then Inr ()
      else if pd_writable d = Some True then Inl TypeError
      else case changes (pd_value d) v of
             None \<Rightarrow> Inl Unmodelled
           | Some True \<Rightarrow> Inl TypeError
           | Some False \<Rightarrow> Inr ())"
| "validate_pd (Some (AccessorProp g s e c)) d =
     (if c then Inr ()
      else if pd_configurable d = Some True then Inl TypeError
      else if pd_enumerable d \<noteq> None \<and> pd_enumerable d \<noteq> Some e then Inl TypeError
      else if is_data_pd d then Inl TypeError
      else case (changes (pd_set d) s, changes (pd_get d) g) of
             (Some False, Some False) \<Rightarrow> Inr ()
           | (Some True, _) \<Rightarrow> Inl TypeError
           | (_, Some True) \<Rightarrow> Inl TypeError
           | _ \<Rightarrow> Inl Unmodelled)"

definition put_prop :: "nat \<Rightarrow> string \<Rightarrow> own_prop \<Rightarrow> state \<Rightarrow> state" where
  "put_prop r name p st =
     st\<lparr>objs := (objs st)(r := (objs st r)\<lparr>props := put name p (props (objs st r))\<rparr>)\<rparr>"

text \<open>\<^verbatim>\<open>ObjectDefine(target, name, descriptor)\<close>, that is \<^verbatim>\<open>Object.defineProperty\<close>; the
  descriptor is \<open>None\<close> when it is \<^verbatim>\<open>undefined\<close>.\<close>

fun ObjectDefine :: "jsval \<Rightarrow> string \<Rightarrow> jsmap option \<Rightarrow> state \<Rightarrow> state res" where
  "ObjectDefine (VRef r) name descriptor st =
     (case descriptor of
        None \<Rightarrow> Inl TypeError
      | Some d \<Rightarrow>
          if reserved (objs st r) name then Inl Unmodelled
          else bindE (ToPropertyDescriptor d) (\<lambda>pd.
               bindE (validate_pd (map_of (props (objs st r)) name) pd) (\<lambda>_.
               Inr (put_prop r name (apply_pd (map_of (props (objs st r)) name) pd) st))))"
| "ObjectDefine (VObj kvs) name descriptor st = Inl Unmodelled"
| "ObjectDefine (VArr xs) name descriptor st = Inl Unmodelled"
| "ObjectDefine (VFun f ps) name descriptor st = Inl Unmodelled"
| "ObjectDefine (VChain c) name descriptor st = Inl Unmodelled"
| "ObjectDefine v name descriptor st = Inl TypeError"

text \<open>\<^verbatim>\<open>object[name]\<close>: an own data property, an own accessor (its getter is called on
  the object), or the inherited value.\<close>

fun get_member :: "prims \<Rightarrow> jsval \<Rightarrow> string \<Rightarrow> state \<Rightarrow> (jsval \<times> state) res" where
  "get_member pr (VRef r) name st =
     (if reserved (objs st r) name then Inl Unmodelled
      else case map_of (props (objs st r)) name of
             None \<Rightarrow> Inr (getv (inherited (objs st r)) name, st)
           | Some (DataProp v w e c) \<Rightarrow> Inr (v, st)
           | Some (AccessorProp g s e c) \<Rightarrow>
               if g = VUndefined then Inr (VUndefined, st) else call_fn pr g (VRef r) [] st)"
| "get_member pr VUndefined name st = Inl TypeError"
| "get_member pr VNull name st = Inl TypeError"
| "get_member pr v name st = Inl Unmodelled"

text \<open>
  \<^verbatim>\<open>object[name] = v\<close> on a heap object.  An own data property is written when it is
  writable, an own accessor calls its setter, and a name that is not own becomes a new
  own data property.  Where the write is refused, strict code (the body of the class)
  raises a \<^verbatim>\<open>TypeError\<close> and the other code (the functions outside the class) goes on.
\<close>

definition assign_ref :: "bool \<Rightarrow> prims \<Rightarrow> nat \<Rightarrow> string \<Rightarrow> jsval \<Rightarrow> state \<Rightarrow> state res" where
  "assign_ref strict pr r name v st =
     (if reserved (objs st r) name then Inl Unmodelled
      else case map_of (props (objs st r)) name of
             None \<Rightarrow> Inr (put_prop r name (DataProp v True True True) st)
           | Some (DataProp u w e c) \<Rightarrow>
               if w then Inr (put_prop r name (DataProp v w e c) st)
               else if strict then Inl TypeError else Inr st
           | Some (AccessorProp g s e c) \<Rightarrow>
               if s = VUndefined then (if strict then Inl TypeError else Inr st)
               else bindE (call_fn pr s (VRef r) [v] st) (\<lambda>(u, st1). Inr st1))"

text \<open>\<^verbatim>\<open>_this[key] = value\<close> in \<^verbatim>\<open>getSetFactory\<close>, which is not strict code.\<close>

fun assign_sloppy :: "prims \<Rightarrow> jsval \<Rightarrow> string \<Rightarrow> jsval \<Rightarrow> state \<Rightarrow> state res" where
  "assign_sloppy pr (VRef r) name v st = assign_ref False pr r name v st"
| "assign_sloppy pr VUndefined name v st = Inl TypeError"
| "assign_sloppy pr VNull name v st = Inl TypeError"
| "assign_sloppy pr (VObj kvs) name v st = Inl Unmodelled"
| "assign_sloppy pr (VArr xs) name v st = Inl Unmodelled"
| "assign_sloppy pr (VFun f ps) name v st = Inl Unmodelled"
| "assign_sloppy pr (VChain c) name v st = Inl Unmodelled"
| "assign_sloppy pr u name v st = Inr st"

text \<open>
  \<^verbatim>\<open>method.decorated = true\<close> and \<^verbatim>\<open>encased.encased = method\<close>, in strict code.  The
  result is the object with the member set: a function or plain object carries it in
  its value, a heap object in the heap.  A primitive, \<^verbatim>\<open>undefined\<close> and \<^verbatim>\<open>null\<close> raise a
  \<^verbatim>\<open>TypeError\<close>.
\<close>

fun set_member_strict :: "prims \<Rightarrow> jsval \<Rightarrow> string \<Rightarrow> jsval \<Rightarrow> state \<Rightarrow> (jsval \<times> state) res" where
  "set_member_strict pr (VFun f ps) name v st = Inr (VFun f (put name v ps), st)"
| "set_member_strict pr (VObj kvs) name v st = Inr (VObj (put name v kvs), st)"
| "set_member_strict pr (VRef r) name v st =
     bindE (assign_ref True pr r name v st) (\<lambda>st1. Inr (VRef r, st1))"
| "set_member_strict pr (VArr xs) name v st = Inl Unmodelled"
| "set_member_strict pr (VChain c) name v st = Inl Unmodelled"
| "set_member_strict pr u name v st = Inl TypeError"

text \<open>\<^verbatim>\<open>value.defaulted\<close> for a truthy value.\<close>

fun read_member :: "state \<Rightarrow> jsval \<Rightarrow> string \<Rightarrow> jsval res" where
  "read_member st (VFun f ps) name = Inr (getv ps name)"
| "read_member st (VObj kvs) name = Inr (getv kvs name)"
| "read_member st (VRef r) name =
     (if reserved (objs st r) name then Inl Unmodelled
      else case map_of (props (objs st r)) name of
             None \<Rightarrow> Inr (getv (inherited (objs st r)) name)
           | Some (DataProp v w e c) \<Rightarrow> Inr v
           | Some (AccessorProp g s e c) \<Rightarrow> Inl Unmodelled)"
| "read_member st (VChain c) name = Inl Unmodelled"
| "read_member st VUndefined name = Inl TypeError"
| "read_member st VNull name = Inl TypeError"
| "read_member st v name = Inr VUndefined"

section \<open>MethodChain: the handlers and the synthesis of one name\<close>

text \<open>\<^verbatim>\<open>new MethodChain(parent)\<close>, the instance placed at \<open>c\<close>: an empty store, the own
  property \<^verbatim>\<open>parent\<close>, and \<^verbatim>\<open>parent\<close> captured by the arrow functions of the constructor.\<close>

definition MethodChain :: "nat \<Rightarrow> jsval \<Rightarrow> state \<Rightarrow> state" where
  "MethodChain c p st =
     st\<lparr>chains := (chains st)(c := \<lparr>cstore = [], own_parent = Some p, ctor_parent = p\<rparr>)\<rparr>"

text \<open>\<^verbatim>\<open>this.parent\<close>\<close>

definition this_parent :: "nat \<Rightarrow> state \<Rightarrow> jsval" where
  "this_parent c st = (case own_parent (chains st c) of None \<Rightarrow> VUndefined | Some p \<Rightarrow> p)"

text \<open>\<^verbatim>\<open>this.onSet = x => set('set', x)\<close>, \<^verbatim>\<open>this.onGet = x => set('get', x)\<close>,
  \<^verbatim>\<open>this.onCall = x => set('call', x)\<close>\<close>

definition onSet :: "nat \<Rightarrow> jsval \<Rightarrow> state \<Rightarrow> state" where
  "onSet c x st = set_key c ''set'' x st"

definition onGet :: "nat \<Rightarrow> jsval \<Rightarrow> state \<Rightarrow> state" where
  "onGet c x st = set_key c ''get'' x st"

definition onCall :: "nat \<Rightarrow> jsval \<Rightarrow> state \<Rightarrow> state" where
  "onCall c x st = set_key c ''call'' x st"

text \<open>\<^verbatim>\<open>!h || h.defaulted\<close>\<close>

definition missing_or_defaulted :: "state \<Rightarrow> jsval \<Rightarrow> bool res" where
  "missing_or_defaulted st h =
     (if \<not> truthy h then Inr True
      else bindE (read_member st h ''defaulted'') (\<lambda>d. Inr (truthy d)))"

text \<open>\<^verbatim>\<open>_defaults(name, parent, built)\<close>\<close>

definition defaults :: "nat \<Rightarrow> string \<Rightarrow> jsval \<Rightarrow> jsmap \<Rightarrow> state \<Rightarrow> state res" where
  "defaults c name parent built st =
     (let defaultOnSet = VFun (DefaultOnSet name parent) [(''defaulted'', VBool True)];
          defaultOnGet = VFun (DefaultOnGet name parent) [(''defaulted'', VBool True)]
      in bindE (missing_or_defaulted st (getv built ''get'')) (\<lambda>g.
         bindE (missing_or_defaulted st (getv built ''call'')) (\<lambda>k.
         bindE (missing_or_defaulted st (getv built ''set'')) (\<lambda>s.
           Inr ((if s then onSet c defaultOnSet else id)
                ((if k then onCall c defaultOnSet else id)
                ((if g then onGet c defaultOnGet else id) st)))))))"

text \<open>
  The first step of \<^verbatim>\<open>_build\<close>: the member the target already has.  The result is
  \<open>None\<close> where \<^verbatim>\<open>_build\<close> returns at once, and otherwise \<^verbatim>\<open>method\<close>, \<^verbatim>\<open>existing\<close> and the
  state.  The function object that is marked \<^verbatim>\<open>decorated\<close> is the one the target holds,
  so the mark shows in the target as well.
\<close>

fun mark_own :: "jsval \<Rightarrow> string \<Rightarrow> jsval \<Rightarrow> state \<Rightarrow> state" where
  "mark_own (VRef r) name v st =
     (case map_of (props (objs st r)) name of
        Some (DataProp u w e cf) \<Rightarrow>
          if by_value_object v then put_prop r name (DataProp v w e cf) st else st
      | _ \<Rightarrow> st)"
| "mark_own p name v st = st"

fun mark_inherited :: "jsval \<Rightarrow> string \<Rightarrow> jsval \<Rightarrow> state \<Rightarrow> state" where
  "mark_inherited (VRef r) name v st =
     (if by_value_object v
      then st\<lparr>objs := (objs st)(r := (objs st r)\<lparr>inherited := put name v (inherited (objs st r))\<rparr>)\<rparr>
      else st)"
| "mark_inherited p name v st = st"

definition detect_existing ::
  "prims \<Rightarrow> nat \<Rightarrow> string \<Rightarrow> jsval \<Rightarrow> state \<Rightarrow> (jsval \<times> jsmap option \<times> state) option res" where
  "detect_existing pr c name parent st =
     bindE (hasOwnProperty st parent name) (\<lambda>own.
       if own then
         bindE (getDescriptor st parent name) (\<lambda>d.
           case d of
             None \<Rightarrow> Inl TypeError
           | Some existing \<Rightarrow>
               if getv existing ''configurable'' = VBool False then Inr None
               else bindE (set_member_strict pr (getv existing ''value'') ''decorated''
                             (VBool True) st) (\<lambda>(method, st1).
                    Inr (Some (method, Some (put ''value'' method existing),
                           onSet c method (onCall c method (mark_own parent name method st1))))))
       else
         bindE (get_member pr parent name st) (\<lambda>(v, st1).
           if truthy v then
             bindE (get_member pr parent name st1) (\<lambda>(m, st2).
             bindE (set_member_strict pr m ''decorated'' (VBool True) st2) (\<lambda>(method, st3).
               Inr (Some (method, None,
                      onSet c method (onCall c method (mark_inherited parent name method st3))))))
           else Inr (Some (VUndefined, None, st1))))"

text \<open>\<^verbatim>\<open>built.factories.map(factory => factory(name, parent))\<close>\<close>

fun call_each :: "prims \<Rightarrow> jsval list \<Rightarrow> jsval list \<Rightarrow> state \<Rightarrow> state res" where
  "call_each pr [] args st = Inr st"
| "call_each pr (f # fs) args st =
     (case call_fn pr f VUndefined args st of
        Inl e \<Rightarrow> Inl e
      | Inr (u, st1) \<Rightarrow> call_each pr fs args st1)"

fun run_factories :: "prims \<Rightarrow> jsval \<Rightarrow> string \<Rightarrow> jsval \<Rightarrow> state \<Rightarrow> state res" where
  "run_factories pr (VArr fs) name parent st = call_each pr fs [VStr name, parent] st"
| "run_factories pr (VObj kvs) name parent st = Inl Unmodelled"
| "run_factories pr (VRef r) name parent st = Inl Unmodelled"
| "run_factories pr (VChain c) name parent st = Inl Unmodelled"
| "run_factories pr v name parent st = (if truthy v then Inl TypeError else Inr st)"

text \<open>The \<^verbatim>\<open>type\<close> and \<^verbatim>\<open>encase\<close> branches of \<^verbatim>\<open>_build\<close>; the result is \<^verbatim>\<open>method\<close>.\<close>

definition type_or_encase ::
  "ext \<Rightarrow> nat \<Rightarrow> string \<Rightarrow> jsval \<Rightarrow> jsval \<Rightarrow> state \<Rightarrow> (jsval \<times> state) res" where
  "type_or_encase ex c name parent method st =
     (let built = entries c st in
      if truthy (getv built ''type'') then
        (let validatorMethod = validatorMethodFactory ex name parent built
         in Inr (method, set_key c ''set'' validatorMethod (set_key c ''call'' validatorMethod st)))
      else if truthy (getv built ''encase'') then
        bindE (set_member_strict (prim ex) (methodEncasingFactory ex name parent built method)
                 ''encased'' method st) (\<lambda>(encased, st1).
          Inr (encased, set_key c ''set'' encased (set_key c ''call'' encased st1)))
      else Inr (method, st))"

text \<open>\<^verbatim>\<open>method.bind(bind)\<close>\<close>

fun bind_function :: "jsval \<Rightarrow> jsval \<Rightarrow> jsval res" where
  "bind_function (VFun f ps) b = Inr (VFun (BoundFn (VFun f ps) b) [])"
| "bind_function (VObj kvs) b = Inl Unmodelled"
| "bind_function (VRef r) b = Inl Unmodelled"
| "bind_function (VChain c) b = Inl Unmodelled"
| "bind_function v b = Inl TypeError"

text \<open>The default method, \<^verbatim>\<open>bind\<close> and \<^verbatim>\<open>returns\<close>, in this order.\<close>

definition wrap_method :: "jsmap \<Rightarrow> jsval \<Rightarrow> jsval \<Rightarrow> jsval res" where
  "wrap_method built parent method =
     bindE (Inr (if \<not> truthy method
                 then VFun (DefaultMethod (getv built ''default'') (getv built ''call'') parent) []
                 else method)) (\<lambda>method1.
     bindE (if truthy (getv built ''bind'') then bind_function method1 (getv built ''bind'')
            else Inr method1) (\<lambda>method2.
       Inr (if truthy (getv built ''returns'')
            then VFun (ReturnsWrapper method2 parent (getv built ''returns'')
                         (getv built ''callReturns'')) []
            else method2)))"

text \<open>\<^verbatim>\<open>if (!isUndefined(initial)) parent.set(name, initial)\<close>\<close>

definition set_initial :: "string \<Rightarrow> jsval \<Rightarrow> jsval \<Rightarrow> state \<Rightarrow> state res" where
  "set_initial name parent initial st =
     (if isUndefined initial then Inr st
      else bindE (parent_set parent name initial st) (\<lambda>(u, st1). Inr st1))"

text \<open>
  The block under \<^verbatim>\<open>if (ENV_DEVELOPMENT)\<close>: \<^verbatim>\<open>ObjectDefine(f, 'name', {value: ...})\<close> for
  \<^verbatim>\<open>get\<close>, \<^verbatim>\<open>set\<close>, \<^verbatim>\<open>call\<close> and \<^verbatim>\<open>method\<close>.  The \<^verbatim>\<open>name\<close> of a function object is not part
  of the model.  The \<^verbatim>\<open>console.log\<close> under \<^verbatim>\<open>NODE_ENV === 'debug'\<close> changes nothing.
\<close>

fun dev_name :: "jsval \<Rightarrow> string \<Rightarrow> state \<Rightarrow> state res" where
  "dev_name (VFun f ps) n st = Inr st"
| "dev_name v n st = ObjectDefine v ''name'' (Some [(''value'', VStr n)]) st"

definition dev_block :: "ext \<Rightarrow> string \<Rightarrow> jsmap \<Rightarrow> jsval \<Rightarrow> state \<Rightarrow> state res" where
  "dev_block ex name built method st =
     (if ENV_DEVELOPMENT ex then
        bindE (dev_name (getv built ''get'') (camelCase ex (''get-'' @ name)) st) (\<lambda>st1.
        bindE (dev_name (getv built ''set'') (camelCase ex (''set-'' @ name)) st1) (\<lambda>st2.
        bindE (dev_name (getv built ''call'') (camelCase ex (''call-'' @ name)) st2) (\<lambda>st3.
        dev_name method (camelCase ex name) st3)))
      else Inr st)"

text \<open>
  The descriptor of \<^verbatim>\<open>_build\<close>:
  \<^verbatim>\<open>let descriptor = shouldDefineGetSet ? {get, set} : {value: method}\<close>,
  \<^verbatim>\<open>if (existing) descriptor = ObjectAssign(existing, descriptor)\<close>,
  \<^verbatim>\<open>if (descriptor.value && descriptor.get) delete descriptor.value\<close>,
  \<^verbatim>\<open>if (!isUndefined(descriptor.writable)) delete descriptor.writable\<close>.
\<close>

definition merged_descriptor :: "jsval \<Rightarrow> jsval \<Rightarrow> jsval \<Rightarrow> jsval \<Rightarrow> jsmap option \<Rightarrow> jsmap" where
  "merged_descriptor shouldDefineGetSet the_get the_set method existing =
     (let descriptor = (if truthy shouldDefineGetSet then [(''get'', the_get), (''set'', the_set)]
                        else [(''value'', method)])
      in case existing of None \<Rightarrow> descriptor | Some e \<Rightarrow> ObjectAssign e descriptor)"

definition strip_descriptor :: "jsmap \<Rightarrow> jsmap" where
  "strip_descriptor descriptor =
     (let d1 = (if truthy (getv descriptor ''value'') \<and> truthy (getv descriptor ''get'')
                then del ''value'' descriptor else descriptor)
      in if \<not> isUndefined (getv d1 ''writable'') then del ''writable'' d1 else d1)"

definition assemble_descriptor :: "jsval \<Rightarrow> jsval \<Rightarrow> jsval \<Rightarrow> jsval \<Rightarrow> jsmap option \<Rightarrow> jsmap" where
  "assemble_descriptor shouldDefineGetSet the_get the_set method existing =
     strip_descriptor (merged_descriptor shouldDefineGetSet the_get the_set method existing)"

text \<open>\<^verbatim>\<open>getSetFactory(_this, name, desc)\<close>\<close>

definition getSetFactory :: "ext \<Rightarrow> jsval \<Rightarrow> string \<Rightarrow> jsval \<Rightarrow> jsval \<Rightarrow> state \<Rightarrow> state res" where
  "getSetFactory ex this name desc_get desc_set st =
     bindE (assign_sloppy (prim ex) this (camelCase ex (''set-'' @ name)) desc_set st) (\<lambda>st1.
       assign_sloppy (prim ex) this (camelCase ex (''get-'' @ name)) desc_get st1)"

text \<open>\<^verbatim>\<open>aliasFactory(name, parent, aliases)\<close>: the keys \<^verbatim>\<open>aliases[a]\<close> for
  \<^verbatim>\<open>a < aliases.length\<close>, and one \<^verbatim>\<open>ObjectDefine\<close> for each.\<close>

fun those_keys :: "jsval list \<Rightarrow> string list option" where
  "those_keys [] = Some []"
| "those_keys (x # xs) =
     (case to_key x of
        None \<Rightarrow> None
      | Some k \<Rightarrow> (case those_keys xs of None \<Rightarrow> None | Some ks \<Rightarrow> Some (k # ks)))"

fun alias_keys :: "jsval \<Rightarrow> string list option" where
  "alias_keys (VArr xs) = those_keys xs"
| "alias_keys (VStr s) = Some (map (\<lambda>ch. [ch]) s)"
| "alias_keys (VObj kvs) = None"
| "alias_keys (VRef r) = None"
| "alias_keys (VChain c) = None"
| "alias_keys (VFun f ps) = None"
| "alias_keys v = Some []"

fun define_aliases :: "string \<Rightarrow> jsval \<Rightarrow> string list \<Rightarrow> state \<Rightarrow> state res" where
  "define_aliases name parent [] st = Inr st"
| "define_aliases name parent (a # as) st =
     (case getDescriptor st parent name of
        Inl e \<Rightarrow> Inl e
      | Inr d \<Rightarrow> (case ObjectDefine parent a d st of
                    Inl e \<Rightarrow> Inl e
                  | Inr st1 \<Rightarrow> define_aliases name parent as st1))"

definition aliasFactory :: "string \<Rightarrow> jsval \<Rightarrow> jsval \<Rightarrow> state \<Rightarrow> state res" where
  "aliasFactory name parent aliases st =
     (if truthy aliases then
        (case alias_keys aliases of
           None \<Rightarrow> Inl Unmodelled
         | Some ks \<Rightarrow> define_aliases name parent ks st)
      else Inr st)"

text \<open>The end of \<^verbatim>\<open>_build\<close>: the target, \<^verbatim>\<open>ObjectDefine\<close>, the get/set shorthands and the
  aliases.\<close>

definition getter_setter :: "ext \<Rightarrow> jsval \<Rightarrow> string \<Rightarrow> jsval \<Rightarrow> jsval \<Rightarrow> state \<Rightarrow> state res" where
  "getter_setter ex target name the_get the_set st =
     bindE (get_member (prim ex) target ''meta'' st) (\<lambda>(m, st1).
     bindE (if truthy m then
              bindE (get_member (prim ex) target ''meta'' st1) (\<lambda>(f, st2).
              bindE (call_fn (prim ex) f target [SHORTHANDS_KEY, VStr name, the_set] st2)
                (\<lambda>(u, st3). Inr st3))
            else Inr st1) (\<lambda>st4.
       getSetFactory ex target name the_get the_set st4))"

definition install ::
  "ext \<Rightarrow> nat \<Rightarrow> string \<Rightarrow> jsval \<Rightarrow> jsmap \<Rightarrow> jsmap \<Rightarrow> state \<Rightarrow> state res" where
  "install ex c name parent built descriptor st =
     (let target = (if truthy (get c ''decorationTarget'' st) then get c ''decorationTarget'' st
                    else parent)
      in bindE (ObjectDefine target name (Some descriptor) st) (\<lambda>st1.
         bindE (if truthy (getv built ''getSet'')
                then getter_setter ex target name (getv built ''get'') (getv built ''set'') st1
                else Inr st1) (\<lambda>st2.
           aliasFactory name target (getv built ''alias'') st2)))"

text \<open>\<^verbatim>\<open>_build(name, parent)\<close>\<close>

definition build_name :: "ext \<Rightarrow> nat \<Rightarrow> string \<Rightarrow> jsval \<Rightarrow> state \<Rightarrow> state res" where
  "build_name ex c name parent st =
     bindE (detect_existing (prim ex) c name parent st) (\<lambda>found.
       case found of
         None \<Rightarrow> Inr st
       | Some (method, existing, st1) \<Rightarrow>
           bindE (defaults c name parent (entries c st1) st1) (\<lambda>st2.
           bindE (run_factories (prim ex) (getv (entries c st1) ''factories'') name parent st2)
             (\<lambda>st3.
           bindE (type_or_encase ex c name parent method st3) (\<lambda>(method1, st4).
           bindE (wrap_method (entries c st4) parent method1) (\<lambda>method2.
           bindE (set_initial name parent (getv (entries c st4) ''initial'') st4) (\<lambda>st5.
           bindE (dev_block ex name (entries c st4) method2 st5) (\<lambda>st6.
             install ex c name parent (entries c st4)
               (assemble_descriptor (getv (entries c st4) ''define'')
                  (getv (entries c st4) ''get'') (getv (entries c st4) ''set'') method2 existing)
               st6)))))))"

text \<open>\<^verbatim>\<open>build(returnValue)\<close>.  A name is a string here; any other value is outside the
  model.\<close>

fun build_names :: "ext \<Rightarrow> nat \<Rightarrow> jsval \<Rightarrow> jsval \<Rightarrow> jsval list \<Rightarrow> state \<Rightarrow> state res" where
  "build_names ex c parent shouldTapName [] st = Inr st"
| "build_names ex c parent shouldTapName (VStr s # ns) st =
     (case build_name ex c (if truthy shouldTapName then camelCase ex s else s) parent st of
        Inl e \<Rightarrow> Inl e
      | Inr st1 \<Rightarrow> build_names ex c parent shouldTapName ns st1)"
| "build_names ex c parent shouldTapName (v # ns) st = Inl Unmodelled"

definition delete_parent :: "nat \<Rightarrow> state \<Rightarrow> state" where
  "delete_parent c st = st\<lparr>chains := (chains st)(c := (chains st c)\<lparr>own_parent := None\<rparr>)\<rparr>"

definition build :: "ext \<Rightarrow> nat \<Rightarrow> jsval \<Rightarrow> state \<Rightarrow> (jsval \<times> state) res" where
  "build ex c returnValue st =
     (let parent = this_parent c st;
          names = toarr (get c ''names'' st);
          shouldTapName = get c ''camel'' st
      in bindE (build_names ex c parent shouldTapName names st) (\<lambda>st1.
           Inr (if isUndefined returnValue then parent else returnValue,
                markForGarbageCollection c (delete_parent c (clear c st1)))))"

section \<open>MethodChain: the configuration calls\<close>

text \<open>The setters that \<^verbatim>\<open>this.extend([...])\<close> installs:
  \<^verbatim>\<open>this[method] = value => this.set(method, value)\<close>.\<close>

definition decorationTarget :: "nat \<Rightarrow> jsval \<Rightarrow> state \<Rightarrow> state" where
  "decorationTarget c v st = set_key c ''decorationTarget'' v st"

definition callReturns :: "nat \<Rightarrow> jsval \<Rightarrow> state \<Rightarrow> state" where
  "callReturns c v st = set_key c ''callReturns'' v st"

definition initial :: "nat \<Rightarrow> jsval \<Rightarrow> state \<Rightarrow> state" where
  "initial c v st = set_key c ''initial'' v st"


text \<open>\<^verbatim>\<open>this.bind = (should = parent) => set('bind', should)\<close>\<close>

definition bind_to :: "nat \<Rightarrow> jsval \<Rightarrow> state \<Rightarrow> state" where
  "bind_to c should st =
     set_key c ''bind'' (if should = VUndefined then ctor_parent (chains st c) else should) st"

text \<open>\<^verbatim>\<open>this.returns = (x, callReturns) =>
  set('returns', x || parent).set('callReturns', callReturns)\<close>\<close>

definition returns :: "nat \<Rightarrow> jsval \<Rightarrow> jsval \<Rightarrow> state \<Rightarrow> state" where
  "returns c x cr st =
     set_key c ''callReturns'' cr
       (set_key c ''returns'' (if truthy x then x else ctor_parent (chains st c)) st)"

text \<open>\<^verbatim>\<open>this.alias\<close> and \<^verbatim>\<open>this.factory\<close>:
  \<^verbatim>\<open>this.tap(key, (old, merge) => merge(old, toarr(x)))\<close>\<close>

definition add_alias :: "nat \<Rightarrow> jsval \<Rightarrow> state \<Rightarrow> state" where
  "add_alias c aliases st = tap c ''alias'' (\<lambda>old merge. merge old (VArr (toarr aliases))) st"

definition factory :: "nat \<Rightarrow> jsval \<Rightarrow> state \<Rightarrow> state" where
  "factory c f st = tap c ''factories'' (\<lambda>old merge. merge old (VArr (toarr f))) st"

text \<open>\<^verbatim>\<open>this.name\<close> for a name or an array of names.  The branch for a mapping of
  names, which queues one factory a key, is outside the model.\<close>

definition name :: "nat \<Rightarrow> jsval \<Rightarrow> state \<Rightarrow> state res" where
  "name c methods st =
     (if \<not> isArray methods \<and> isObj methods then Inl Unmodelled
      else Inr (set_key c ''names'' methods st))"

text \<open>\<^verbatim>\<open>this.camelCase = () => set('camel', true)\<close>,
  \<^verbatim>\<open>this.define = (x = true) => set('define', x)\<close>,
  \<^verbatim>\<open>this.getSet = (x = true) => set('getSet', x)\<close>\<close>

definition camel :: "nat \<Rightarrow> state \<Rightarrow> state" where
  "camel c st = set_key c ''camel'' (VBool True) st"

definition define_accessors :: "nat \<Rightarrow> jsval \<Rightarrow> state \<Rightarrow> state" where
  "define_accessors c x st = set_key c ''define'' (if x = VUndefined then VBool True else x) st"

definition getSet :: "nat \<Rightarrow> jsval \<Rightarrow> state \<Rightarrow> state" where
  "getSet c x st = set_key c ''getSet'' (if x = VUndefined then VBool True else x) st"

text \<open>\<^verbatim>\<open>parentToDecorate.meta = meta(parentToDecorate)\<close>\<close>

fun attach_meta :: "prims \<Rightarrow> jsval \<Rightarrow> state \<Rightarrow> state res" where
  "attach_meta pr (VRef r) st = assign_ref True pr r ''meta'' (VFun (MetaFn r) []) st"
| "attach_meta pr v st = Inl Unmodelled"

text \<open>\<^verbatim>\<open>decorate(parentToDecorate)\<close>\<close>

definition decorate :: "ext \<Rightarrow> nat \<Rightarrow> jsval \<Rightarrow> state \<Rightarrow> state res" where
  "decorate ex c parentToDecorate st =
     bindE (if \<not> truthy parentToDecorate
            then get_member (prim ex) (this_parent c st) ''parent'' st
            else Inr (parentToDecorate, st)) (\<lambda>(target, st1).
       if \<not> truthy target then
         (if ENV_DEVELOPMENT ex then Inl (Thrown (VStr ''must provide parent argument''))
          else Inr st1)
       else
         bindE (get_member (prim ex) target ''meta'' (decorationTarget c target st1))
           (\<lambda>(m, st2).
         bindE (if \<not> truthy m then attach_meta (prim ex) target st2 else Inr st2) (\<lambda>st3.
           Inr (factory c (VFun (DecorateFactory c target) []) st3))))"


text \<open>\<^verbatim>\<open>object.name(...args)\<close>: the member is read and called on the object.\<close>

definition invoke :: "ext \<Rightarrow> jsval \<Rightarrow> string \<Rightarrow> jsval list \<Rightarrow> state \<Rightarrow> (jsval \<times> state) res" where
  "invoke ex ob m args st =
     bindE (get_member (prim ex) ob m st) (\<lambda>(f, st1). call_fn (prim ex) f ob args st1)"

section \<open>Fixtures\<close>

text \<open>A heap object with nothing on it, a \<^verbatim>\<open>ChainedMap\<close> with an empty store, and a heap of
  empty objects.\<close>

definition plain_object :: obj where
  "plain_object = \<lparr>props = [], inherited = [], ostore = None, registry = []\<rparr>"

definition fresh_chained_map :: obj where
  "fresh_chained_map = \<lparr>props = [], inherited = [], ostore = Some [], registry = []\<rparr>"

definition blank_chain :: chain where
  "blank_chain = \<lparr>cstore = [], own_parent = None, ctor_parent = VUndefined\<rparr>"

definition empty_state :: state where
  "empty_state = \<lparr>objs = (\<lambda>r. plain_object), chains = (\<lambda>c. blank_chain)\<rparr>"

text \<open>Collaborators that do nothing (the production configuration), and a heap whose
  object \<open>0\<close> is a fresh \<^verbatim>\<open>ChainedMap\<close>, all others being empty objects.\<close>

definition no_ext :: ext where
  "no_ext = \<lparr>prim = (\<lambda>k this args st. Inl Unmodelled), camelCase = id,
     validatorMethodFactory = (\<lambda>n p b. VUndefined),
     methodEncasingFactory = (\<lambda>n p b m. VUndefined),
     ENV_DEVELOPMENT = False\<rparr>"

definition parent_state :: state where
  "parent_state = empty_state\<lparr>objs := (objs empty_state)(0 := fresh_chained_map)\<rparr>"



section \<open>Properties\<close>

subsection \<open>Stores and results\<close>

lemma bindE_Inr [simp]: "bindE (Inr x) f = f x"
  by (simp add: bindE_def)

lemma bindE_Inl [simp]: "bindE (Inl e) f = Inl e"
  by (simp add: bindE_def)

lemma map_of_put: "map_of (put k v m) = (map_of m)(k \<mapsto> v)"
  by (induction m) (auto simp: fun_eq_iff)

lemma getv_put: "getv (put k v m) k' = (if k' = k then v else getv m k')"
  by (simp add: getv_def map_of_put)

lemma put_put [simp]: "put k v (put k u m) = put k v m"
  by (induction m) auto

lemma get_set_key [simp]:
  "get c k (set_key c' k' v st) = (if c = c' \<and> k = k' then v else get c k st)"
  by (simp add: get_def set_key_def getv_put)

lemma objs_set_key [simp]: "objs (set_key c k v st) = objs st"
  by (simp add: set_key_def)

lemmas handler_defs = onSet_def onGet_def onCall_def

lemmas build_defs = name_def MethodChain_def build_def this_parent_def set_key_def get_def getv_def
  build_name_def detect_existing_def reserved_def entries_def defaults_def missing_or_defaulted_def
  handler_defs Let_def type_or_encase_def wrap_method_def set_initial_def dev_block_def install_def
  assemble_descriptor_def merged_descriptor_def strip_descriptor_def aliasFactory_def
  parent_set_def put_store_def put_prop_def clear_def delete_parent_def
  markForGarbageCollection_def isUndefined_def ToPropertyDescriptor_def callable_or_undefined_def
  is_accessor_pd_def is_data_pd_def orElse_def del_def arg_def isTrue_def

subsection \<open>clean\<close>







subsection \<open>Default wiring\<close>

text \<open>
  C5.  The owning parent is a \<^verbatim>\<open>ChainedMap\<close> with store \<open>s\<close> that has no member \<^verbatim>\<open>eh\<close>, own
  or inherited, and whose \<^verbatim>\<open>set\<close> is the one of \<^verbatim>\<open>ChainedMap\<close>.  With no handler configured,
  \<^verbatim>\<open>new MethodChain(parent).name('eh').build()\<close> returns the parent, \<^verbatim>\<open>parent.eh(5)\<close> returns
  the parent, and the store then holds \<open>5\<close> under \<^verbatim>\<open>eh\<close>.
\<close>

theorem default_wiring:
  assumes "ostore (objs st r) = Some s"
    and "map_of (props (objs st r)) ''eh'' = None"
    and "\<not> truthy (getv (inherited (objs st r)) ''eh'')"
    and "map_of (props (objs st r)) ''set'' = None"
  shows "\<exists>st1 st2 st3.
      name c (VStr ''eh'') (MethodChain c (VRef r) st) = Inr st1
    \<and> build ex c VUndefined st1 = Inr (VRef r, st2)
    \<and> invoke ex (VRef r) ''eh'' [VNum 5] st2 = Inr (VRef r, st3)
    \<and> ostore (objs st3 r) = Some (put ''eh'' (VNum 5) s)"
  using assms
  by (simp add: build_defs invoke_def map_of_put)

theorem default_wiring_witness:
  "ostore (objs parent_state 0) = Some []
   \<and> map_of (props (objs parent_state 0)) ''eh'' = None
   \<and> \<not> truthy (getv (inherited (objs parent_state 0)) ''eh'')
   \<and> map_of (props (objs parent_state 0)) ''set'' = None
   \<and> (\<exists>st1 st2 st3.
      name 0 (VStr ''eh'') (MethodChain 0 (VRef 0) parent_state) = Inr st1
    \<and> build no_ext 0 VUndefined st1 = Inr (VRef 0, st2)
    \<and> invoke no_ext (VRef 0) ''eh'' [VNum 5] st2 = Inr (VRef 0, st3)
    \<and> ostore (objs st3 0) = Some (put ''eh'' (VNum 5) []))"
proof -
  have h1: "ostore (objs parent_state 0) = Some []"
    by (simp add: parent_state_def fresh_chained_map_def)
  have h2: "map_of (props (objs parent_state 0)) ''eh'' = None"
    by (simp add: parent_state_def fresh_chained_map_def)
  have h3: "\<not> truthy (getv (inherited (objs parent_state 0)) ''eh'')"
    by (simp add: parent_state_def fresh_chained_map_def getv_def)
  have h4: "map_of (props (objs parent_state 0)) ''set'' = None"
    by (simp add: parent_state_def fresh_chained_map_def)
  show ?thesis
    by (rule conjI [OF h1 conjI [OF h2 conjI [OF h3 conjI [OF h4
          default_wiring [OF h1 h2 h3 h4]]]]])
qed

subsection \<open>autoIncrement\<close>



subsection \<open>returns with callReturns\<close>




subsection \<open>decorate\<close>

text \<open>
  C1.  \<^verbatim>\<open>new MethodChain(parent).name('eh').decorate(target).build()\<close> with the parent at
  \<open>0\<close> and the target at \<open>1\<close>.  The method installed on the target wraps the default method
  \<open>ref\<close>.  For the argument \<open>5\<close> the call's own result is the parent, which is truthy, and
  the installed method returns the target all the same: \<^verbatim>\<open>callReturns\<close> holds the function
  \<^verbatim>\<open>returnsFunction\<close>, which is not \<^verbatim>\<open>true\<close>, so that function is never called.
\<close>

theorem decorate_returns_target:
  "\<exists>st1 st2 st3 st4 ref.
      name 0 (VStr ''eh'') (MethodChain 0 (VRef 0) parent_state) = Inr st1
    \<and> decorate no_ext 0 (VRef 1) st1 = Inr st2
    \<and> build no_ext 0 VUndefined st2 = Inr (VRef 0, st3)
    \<and> map_of (props (objs st3 1)) ''eh''
        = Some (DataProp (VFun (ReturnsWrapper ref (VRef 0) (VRef 1)
                   (VFun (ReturnsFunction (VRef 1)) [])) []) False False False)
    \<and> call_fn (prim no_ext) ref (VRef 0) [VNum 5] st3 = Inr (VRef 0, st4)
    \<and> truthy (VRef 0)
    \<and> invoke no_ext (VRef 1) ''eh'' [VNum 5] st3 = Inr (VRef 1, st4)"
  by (simp add: build_defs invoke_def map_of_put decorate_def factory_def tap_def dopemerge_def
       parent_state_def empty_state_def fresh_chained_map_def plain_object_def no_ext_def
       decorationTarget_def assign_ref_def DECORATED_KEY_def meta_record_def)

subsection \<open>One-shot consumption\<close>



subsection \<open>Non-configurable conflict\<close>



subsection \<open>Shape of the descriptor\<close>




subsection \<open>encase\<close>



subsection \<open>Inherited members\<close>




end
